theory Spec2Isabelle
  imports Complex_Main
begin

section \<open>pywarpx particle containers: errors and results\<close>

text \<open>
  The module \<^verbatim>\<open>Python/pywarpx/particle_containers.py\<close> wraps the particle containers
  and the particle boundary buffer of the simulation engine. Every exception the
  Python code can raise is a value of \<open>error\<close>; a method returns \<open>error + 'a\<close>, with
  \<open>Inl\<close> for the raised exception.

  The specification's error taxonomy names the Python exceptions as follows:
  \<^item> \<open>ShapeMismatch\<close> is the \<^verbatim>\<open>AssertionError\<close> of a failed length assertion; its
    argument here is the field name \<open>k\<close> of the message
    \<^verbatim>\<open>Length of k doesn't match len of others\<close>;
  \<^item> \<open>ConfigurationError\<close> is the \<^verbatim>\<open>RuntimeError\<close> raised by \<^verbatim>\<open>_get_boundary_number\<close>;
  \<^item> \<open>UnsupportedOperation\<close> is the plain \<^verbatim>\<open>Exception\<close> raised by the coordinate queries;
  \<^item> \<open>KeyError\<close>, \<open>IndexError\<close>, \<open>ValueError\<close>, \<open>TypeError\<close>, \<open>NameError\<close> and
    \<open>AttributeError\<close> are raised by the Python runtime and by numpy (dictionary
    lookup, indexing, array creation and broadcasting, name and attribute lookup);
  \<^item> \<open>EngineError\<close> stands for any failure inside the wrapped engine.
\<close>

datatype error =
    AssertionError string
  | RuntimeError string
  | Exception string
  | KeyError string
  | IndexError
  | ValueError
  | TypeError
  | NameError string
  | AttributeError string
  | EngineError string

definition bind_err :: "error + 'a \<Rightarrow> ('a \<Rightarrow> error + 'b) \<Rightarrow> error + 'b" where
  "bind_err r f = (case r of Inl e \<Rightarrow> Inl e | Inr v \<Rightarrow> f v)"

text \<open>A comprehension or loop whose body can raise: the first exception ends it.\<close>

fun fold_err :: "('a \<Rightarrow> 's \<Rightarrow> error + 's) \<Rightarrow> 'a list \<Rightarrow> 's \<Rightarrow> error + 's" where
  "fold_err f [] s = Inr s"
| "fold_err f (a # as) s = (case f a s of Inl e \<Rightarrow> Inl e | Inr s' \<Rightarrow> fold_err f as s')"

fun map_err :: "('a \<Rightarrow> error + 'b) \<Rightarrow> 'a list \<Rightarrow> error + 'b list" where
  "map_err f [] = Inr []"
| "map_err f (a # as) =
     (case f a of
        Inl e \<Rightarrow> Inl e
      | Inr b \<Rightarrow> (case map_err f as of Inl e \<Rightarrow> Inl e | Inr bs \<Rightarrow> Inr (b # bs)))"

section \<open>Boundary numbers\<close>

text \<open>
  \<^verbatim>\<open>str.split(sep)\<close> for a one-character separator: the pieces between the
  separators, empty pieces included; the result is never empty.
\<close>

fun split :: "char \<Rightarrow> string \<Rightarrow> string list" where
  "split sep [] = [[]]"
| "split sep (c # cs) =
     (if c = sep then [] # split sep cs
      else (case split sep cs of
              [] \<Rightarrow> [[c]]
            | p # ps \<Rightarrow> (c # p) # ps))"

text \<open>
  The dictionary \<^verbatim>\<open>dimensions\<close> chosen by \<^verbatim>\<open>libwarpx.geometry_dim\<close>, as an association
  list in the order of the literal; an unknown geometry raises.
\<close>

definition dimensions :: "string \<Rightarrow> error + (string \<times> int) list" where
  "dimensions geometry_dim =
     (if geometry_dim = ''3d'' then Inr [(''x'', 0), (''y'', 1), (''z'', 2)]
      else if geometry_dim = ''2d'' \<or> geometry_dim = ''rz'' then Inr [(''x'', 0), (''z'', 1)]
      else if geometry_dim = ''1d'' then Inr [(''z'', 0)]
      else Inl (RuntimeError (''Unknown simulation geometry: '' @ geometry_dim)))"

text \<open>
  \<^verbatim>\<open>_get_boundary_number\<close>. The lookup \<^verbatim>\<open>dimensions[boundary_parts[0]]\<close> comes before
  \<^verbatim>\<open>boundary_parts[1]\<close> is read, so an unknown axis is a \<open>KeyError\<close> and a token
  without separator an \<open>IndexError\<close>; parts after the second are never read.
\<close>

definition get_boundary_number :: "string \<Rightarrow> string \<Rightarrow> error + int" where
  "get_boundary_number geometry_dim boundary =
     (case dimensions geometry_dim of
        Inl e \<Rightarrow> Inl e
      | Inr dims \<Rightarrow>
         (if boundary \<noteq> ''eb'' then
            (case split CHR ''_'' boundary of
               [] \<Rightarrow> Inl IndexError
             | p0 # rest \<Rightarrow>
                (case map_of dims p0 of
                   None \<Rightarrow> Inl (KeyError p0)
                 | Some dim_num \<Rightarrow>
                    (case rest of
                       [] \<Rightarrow> Inl IndexError
                     | p1 # _ \<Rightarrow>
                        (if p1 = ''lo'' then Inr (2 * dim_num + 0)
                         else if p1 = ''hi'' then Inr (2 * dim_num + 1)
                         else Inl (RuntimeError (''Unknown boundary specified: '' @ boundary))))))
          else
            (if geometry_dim = ''3d'' then Inr 6
             else if geometry_dim = ''2d'' \<or> geometry_dim = ''rz'' then Inr 4
             else if geometry_dim = ''1d'' then Inr 2
             else Inl (RuntimeError (''Unknown simulation geometry: '' @ geometry_dim)))))"

text \<open>The side of a boundary token: \<open>lo\<close> is 0 and \<open>hi\<close> is 1.\<close>

definition side_code :: "string \<Rightarrow> int option" where
  "side_code s = (if s = ''lo'' then Some 0 else if s = ''hi'' then Some 1 else None)"

definition known_geometry :: "string \<Rightarrow> bool" where
  "known_geometry g = (g \<in> set [''3d'', ''2d'', ''rz'', ''1d''])"

text \<open>The axes of a geometry, as the specification's mapping table lists them.\<close>

definition axes :: "string \<Rightarrow> (string \<times> int) list" where
  "axes g = (case dimensions g of Inl e \<Rightarrow> [] | Inr dims \<Rightarrow> dims)"


section \<open>Adding particles\<close>

text \<open>
  An argument of \<^verbatim>\<open>add_particles\<close> is a scalar or a one-dimensional numpy array of
  floating-point numbers (\<^verbatim>\<open>x, y, z : arrays or scalars\<close> in the docstring); the
  numbers are idealised as reals. An omitted positional field is \<^verbatim>\<open>None\<close>, here
  \<open>None\<close> of the option type. The keyword arguments are an association list in the
  order of the call, as a Python dictionary keeps them.
\<close>

datatype npvalue = Scalar real | Array "real list"

text \<open>\<^verbatim>\<open>np.size\<close>: 1 for \<^verbatim>\<open>None\<close> and for a scalar, the length for an array.\<close>

fun np_size :: "npvalue option \<Rightarrow> nat" where
  "np_size None = 1"
| "np_size (Some (Scalar v)) = 1"
| "np_size (Some (Array vs)) = length vs"

text \<open>\<^verbatim>\<open>len\<close>: a scalar has none (a \<open>TypeError\<close>, here \<open>None\<close>).\<close>

fun len :: "npvalue \<Rightarrow> nat option" where
  "len (Scalar v) = None"
| "len (Array vs) = Some (length vs)"

text \<open>
  The fill value \<^verbatim>\<open>(x or 0.)\<close> of a field of size 1: \<^verbatim>\<open>None\<close> and a zero are falsy
  and give \<open>0\<close>, anything else gives the number itself. (The last case, an array
  of another size, is never evaluated.)
\<close>

fun or_zero :: "npvalue option \<Rightarrow> real" where
  "or_zero None = 0"
| "or_zero (Some (Scalar v)) = (if v = 0 then 0 else v)"
| "or_zero (Some (Array [v])) = (if v = 0 then 0 else v)"
| "or_zero (Some (Array vs)) = 0"

text \<open>\<^verbatim>\<open>np.full(maxlen, v)\<close> for a value of size 1.\<close>

definition np_full :: "nat \<Rightarrow> real \<Rightarrow> real list" where
  "np_full maxlen v = replicate maxlen v"

text \<open>The number held by a value of size 1 (\<open>0\<close> stands for the cases never evaluated).\<close>

fun item :: "npvalue \<Rightarrow> real" where
  "item (Scalar v) = v"
| "item (Array [v]) = v"
| "item (Array vs) = 0"

fun the_array :: "npvalue option \<Rightarrow> real list" where
  "the_array (Some (Array vs)) = vs"
| "the_array (Some (Scalar v)) = [v]"
| "the_array None = []"

definition mismatch_msg :: "string \<Rightarrow> string" where
  "mismatch_msg key = ''Length of '' @ key @ '' doesn't match len of others''"

definition assert :: "bool \<Rightarrow> string \<Rightarrow> error + unit" where
  "assert b msg = (if b then Inr () else Inl (AssertionError msg))"

text \<open>The block \<^verbatim>\<open>Find the max length of the parameters supplied\<close>.\<close>

definition find_maxlen ::
  "npvalue option \<Rightarrow> npvalue option \<Rightarrow> npvalue option \<Rightarrow> npvalue option \<Rightarrow>
   npvalue option \<Rightarrow> npvalue option \<Rightarrow> npvalue option \<Rightarrow> nat" where
  "find_maxlen x y z ux uy uz w =
     (let maxlen = 0;
          maxlen = (if x \<noteq> None then max maxlen (np_size x) else maxlen);
          maxlen = (if y \<noteq> None then max maxlen (np_size y) else maxlen);
          maxlen = (if z \<noteq> None then max maxlen (np_size z) else maxlen);
          maxlen = (if ux \<noteq> None then max maxlen (np_size ux) else maxlen);
          maxlen = (if uy \<noteq> None then max maxlen (np_size uy) else maxlen);
          maxlen = (if uz \<noteq> None then max maxlen (np_size uz) else maxlen);
          maxlen = (if w \<noteq> None then max maxlen (np_size w) else maxlen)
      in maxlen)"

text \<open>
  The block \<^verbatim>\<open>Make sure that the lengths of the input parameters are consistent\<close>:
  seven assertions in the order of the source, then one for each keyword argument.
\<close>

definition check_lengths ::
  "nat \<Rightarrow> npvalue option \<Rightarrow> npvalue option \<Rightarrow> npvalue option \<Rightarrow> npvalue option \<Rightarrow>
   npvalue option \<Rightarrow> npvalue option \<Rightarrow> npvalue option \<Rightarrow> (string \<times> npvalue) list \<Rightarrow>
   error + unit" where
  "check_lengths maxlen x y z ux uy uz w kwargs =
     bind_err (assert (x = None \<or> np_size x = maxlen \<or> np_size x = 1) (mismatch_msg ''x'')) (\<lambda>_.
     bind_err (assert (y = None \<or> np_size y = maxlen \<or> np_size y = 1) (mismatch_msg ''y'')) (\<lambda>_.
     bind_err (assert (z = None \<or> np_size z = maxlen \<or> np_size z = 1) (mismatch_msg ''z'')) (\<lambda>_.
     bind_err (assert (ux = None \<or> np_size ux = maxlen \<or> np_size ux = 1) (mismatch_msg ''ux'')) (\<lambda>_.
     bind_err (assert (uy = None \<or> np_size uy = maxlen \<or> np_size uy = 1) (mismatch_msg ''uy'')) (\<lambda>_.
     bind_err (assert (uz = None \<or> np_size uz = maxlen \<or> np_size uz = 1) (mismatch_msg ''uz'')) (\<lambda>_.
     bind_err (assert (w = None \<or> np_size w = maxlen \<or> np_size w = 1) (mismatch_msg ''w'')) (\<lambda>_.
     fold_err (\<lambda>(key, val) _.
         assert (np_size (Some val) = 1 \<or> len val = Some maxlen) (mismatch_msg key))
       kwargs ())))))))"

text \<open>
  The block \<^verbatim>\<open>Broadcast scalars into appropriate length arrays\<close>: a field of size 1
  (an omitted one included) becomes \<^verbatim>\<open>np.full(maxlen, (x or 0.))\<close>, any other field
  is left as it is.
\<close>

definition broadcast :: "nat \<Rightarrow> npvalue option \<Rightarrow> real list" where
  "broadcast maxlen x = (if np_size x = 1 then np_full maxlen (or_zero x) else the_array x)"

definition broadcast_kwarg :: "nat \<Rightarrow> npvalue \<Rightarrow> real list" where
  "broadcast_kwarg maxlen val =
     (if np_size (Some val) = 1 then np_full maxlen (item val) else the_array (Some val))"

text \<open>
  The attribute table \<^verbatim>\<open>attr\<close>, a two-dimensional array: its number of rows and its
  columns. \<^verbatim>\<open>np.zeros((maxlen, nattr))\<close> refuses a negative dimension.
\<close>

record table =
  nrows :: nat
  cols :: "real list list"

definition np_zeros :: "nat \<Rightarrow> int \<Rightarrow> error + table" where
  "np_zeros maxlen nattr =
     (if nattr < 0 then Inl ValueError
      else Inr \<lparr>nrows = maxlen, cols = replicate (nat nattr) (replicate maxlen 0)\<rparr>)"

text \<open>
  The assignment \<^verbatim>\<open>attr[:, j] = vals\<close>: a negative index counts from the last column,
  an index out of range is an \<open>IndexError\<close>; \<open>vals\<close> has the length of a column or
  length 1, else numpy cannot broadcast it (\<open>ValueError\<close>).
\<close>

definition set_column :: "table \<Rightarrow> int \<Rightarrow> real list \<Rightarrow> error + table" where
  "set_column attr j vals =
     (let n = int (length (cols attr)) in
      if j < - n \<or> n \<le> j then Inl IndexError
      else
        (let i = nat (if j < 0 then j + n else j) in
         if length vals = nrows attr then Inr (attr\<lparr>cols := (cols attr)[i := vals]\<rparr>)
         else if length vals = 1 then
           Inr (attr\<lparr>cols := (cols attr)[i := replicate (nrows attr) (hd vals)]\<rparr>)
         else Inl ValueError))"

text \<open>
  One tile of particles, as a particle iterator of the engine presents it: the array
  of structs \<^verbatim>\<open>pti.aos()\<close> with the fields \<^verbatim>\<open>x\<close>, \<^verbatim>\<open>y\<close>, \<^verbatim>\<open>z\<close> and \<^verbatim>\<open>cpuid\<close>, and the
  real and integer components of \<^verbatim>\<open>pti.soa()\<close>.
\<close>

record pstruct =
  struct_x :: real
  struct_y :: real
  struct_z :: real
  struct_cpuid :: nat

record tile =
  aos :: "pstruct list"
  real_data :: "real list list"
  int_data :: "int list list"

text \<open>The batch handed to \<^verbatim>\<open>add_n_particles\<close>, argument by argument.\<close>

record batch =
  b_lev :: int
  b_n :: nat
  b_x :: "real list"
  b_y :: "real list"
  b_z :: "real list"
  b_ux :: "real list"
  b_uy :: "real list"
  b_uz :: "real list"
  b_nattr_real :: int
  b_attr_real :: table
  b_nattr_int :: int
  b_attr_int :: "int list"
  b_uniqueparticles :: bool

text \<open>
  The particle container of the engine, as far as this module uses it: the number
  of real components, the lookup of a component index by name, the tiles its
  iterator yields at a level, and the batches added so far.
\<close>

record particle_container =
  num_real_comps :: int
  comp_index :: "string \<Rightarrow> int option"
  tiles :: "int \<Rightarrow> tile list"
  added :: "batch list"

definition get_comp_index :: "particle_container \<Rightarrow> string \<Rightarrow> error + int" where
  "get_comp_index pc name =
     (case comp_index pc name of
        None \<Rightarrow> Inl (EngineError (''get_comp_index: '' @ name))
      | Some i \<Rightarrow> Inr i)"

definition add_n_particles :: "particle_container \<Rightarrow> batch \<Rightarrow> particle_container" where
  "add_n_particles pc b = pc\<lparr>added := added pc @ [b]\<rparr>"

text \<open>The number of built-in attributes: the three velocities, and theta with RZ.\<close>

definition built_in_attrs :: "string \<Rightarrow> int" where
  "built_in_attrs geometry_dim =
     (let built_in_attrs = 3 in
      if geometry_dim = ''rz'' then built_in_attrs + 1 else built_in_attrs)"

text \<open>
  The body of the loop over the keyword arguments:
  \<^verbatim>\<open>attr[:,self.particle_container.get_comp_index(key) - built_in_attrs] = vals\<close>.
\<close>

definition store_kwarg ::
  "string \<Rightarrow> particle_container \<Rightarrow> string \<times> real list \<Rightarrow> table \<Rightarrow> error + table" where
  "store_kwarg geometry_dim pc =
     (\<lambda>(key, vals) attr.
        bind_err (get_comp_index pc key) (\<lambda>i.
        set_column attr (i - built_in_attrs geometry_dim) vals))"

text \<open>
  The attribute table: zeros, the weights in column 0, then each keyword argument
  in the column of its component index less the built-in attributes.
\<close>

definition build_attr ::
  "string \<Rightarrow> particle_container \<Rightarrow> nat \<Rightarrow> real list \<Rightarrow> (string \<times> real list) list \<Rightarrow>
   error + table" where
  "build_attr geometry_dim pc maxlen w kwargs =
     (let nattr = num_real_comps pc - built_in_attrs geometry_dim in
      bind_err (np_zeros maxlen nattr) (\<lambda>attr.
      bind_err (set_column attr 0 w) (\<lambda>attr.
      fold_err (store_kwarg geometry_dim pc) kwargs attr)))"

text \<open>
  \<^verbatim>\<open>add_particles\<close>: the result of the call and the container after it. Nothing
  touches the container before \<^verbatim>\<open>add_n_particles\<close>, the last statement.
\<close>

definition add_particles ::
  "string \<Rightarrow> particle_container \<Rightarrow> npvalue option \<Rightarrow> npvalue option \<Rightarrow> npvalue option \<Rightarrow>
   npvalue option \<Rightarrow> npvalue option \<Rightarrow> npvalue option \<Rightarrow> npvalue option \<Rightarrow> bool \<Rightarrow>
   (string \<times> npvalue) list \<Rightarrow> (error + unit) \<times> particle_container" where
  "add_particles geometry_dim pc x y z ux uy uz w unique_particles kwargs =
     (let maxlen = find_maxlen x y z ux uy uz w in
      case check_lengths maxlen x y z ux uy uz w kwargs of
        Inl e \<Rightarrow> (Inl e, pc)
      | Inr _ \<Rightarrow>
         (let x = broadcast maxlen x;
              y = broadcast maxlen y;
              z = broadcast maxlen z;
              ux = broadcast maxlen ux;
              uy = broadcast maxlen uy;
              uz = broadcast maxlen uz;
              w = broadcast maxlen w;
              kwargs = map (\<lambda>(key, val). (key, broadcast_kwarg maxlen val)) kwargs;
              nattr = num_real_comps pc - built_in_attrs geometry_dim
          in case build_attr geometry_dim pc maxlen w kwargs of
               Inl e \<Rightarrow> (Inl e, pc)
             | Inr attr \<Rightarrow>
                (Inr (),
                 add_n_particles pc
                   \<lparr>b_lev = 0, b_n = length x, b_x = x, b_y = y, b_z = z,
                    b_ux = ux, b_uy = uy, b_uz = uz,
                    b_nattr_real = nattr, b_attr_real = attr,
                    b_nattr_int = 0, b_attr_int = [],
                    b_uniqueparticles = unique_particles\<rparr>)))"

section \<open>Reading particle data\<close>

text \<open>
  \<^verbatim>\<open>get_particle_structs\<close>: the array of structs of each tile at the level. A field of
  a structured array, \<^verbatim>\<open>struct['x']\<close>, is the list of that field over the structs.
\<close>

definition get_particle_structs :: "particle_container \<Rightarrow> int \<Rightarrow> pstruct list list" where
  "get_particle_structs pc level = map aos (tiles pc level)"

definition GetRealData :: "tile \<Rightarrow> int \<Rightarrow> error + real list" where
  "GetRealData pti comp_idx =
     (if 0 \<le> comp_idx \<and> comp_idx < int (length (real_data pti))
      then Inr (real_data pti ! nat comp_idx)
      else Inl (EngineError ''GetRealData''))"

definition GetIntData :: "tile \<Rightarrow> int \<Rightarrow> error + int list" where
  "GetIntData pti comp_idx =
     (if 0 \<le> comp_idx \<and> comp_idx < int (length (int_data pti))
      then Inr (int_data pti ! nat comp_idx)
      else Inl (EngineError ''GetIntData''))"

definition get_particle_arrays ::
  "particle_container \<Rightarrow> string \<Rightarrow> int \<Rightarrow> error + real list list" where
  "get_particle_arrays pc comp_name level =
     bind_err (get_comp_index pc comp_name) (\<lambda>comp_idx.
     map_err (\<lambda>pti. GetRealData pti comp_idx) (tiles pc level))"

text \<open>
  The product of two one-dimensional arrays: element by element when the lengths
  agree, an array of length 1 stretched to the other, else no broadcast.
\<close>

definition np_mul :: "real list \<Rightarrow> real list \<Rightarrow> error + real list" where
  "np_mul a b =
     (if length a = length b then Inr (map2 (*) a b)
      else if length a = 1 then Inr (map (\<lambda>v. hd a * v) b)
      else if length b = 1 then Inr (map (\<lambda>v. v * hd b) a)
      else Inl ValueError)"

text \<open>\<^verbatim>\<open>np.arctan2\<close> over the reals.\<close>

definition arctan2 :: "real \<Rightarrow> real \<Rightarrow> real" where
  "arctan2 y x =
     (if 0 < x then arctan (y / x)
      else if x < 0 then (if 0 \<le> y then arctan (y / x) + pi else arctan (y / x) - pi)
      else if 0 < y then pi / 2
      else if y < 0 then - (pi / 2)
      else 0)"

text \<open>
  The coordinate queries. Each is an \<^verbatim>\<open>if\<close>/\<^verbatim>\<open>elif\<close> chain over the geometry without a
  final \<^verbatim>\<open>else\<close>: with any other geometry the method returns \<^verbatim>\<open>None\<close>, here \<open>Inr None\<close>.
\<close>

definition get_particle_theta ::
  "string \<Rightarrow> particle_container \<Rightarrow> int \<Rightarrow> error + real list list option" where
  "get_particle_theta geometry_dim pc level =
     (if geometry_dim = ''rz'' then
        bind_err (get_particle_arrays pc ''theta'' level) (\<lambda>arrays. Inr (Some arrays))
      else if geometry_dim = ''3d'' then
        (let structs = get_particle_structs pc level in
         Inr (Some (map (\<lambda>struct. map (\<lambda>p. arctan2 (struct_y p) (struct_x p)) struct) structs)))
      else if geometry_dim = ''2d'' \<or> geometry_dim = ''1d'' then
        Inl (Exception ''get_particle_theta: There is no theta coordinate with 1D or 2D Cartesian'')
      else Inr None)"

text \<open>
  With RZ, \<^verbatim>\<open>get_particle_x\<close> and \<^verbatim>\<open>get_particle_y\<close> call \<^verbatim>\<open>self.get_particle_theta()\<close>
  without a level, that is at level 0, and pair its arrays with the structs by \<^verbatim>\<open>zip\<close>.
\<close>

definition get_particle_x ::
  "string \<Rightarrow> particle_container \<Rightarrow> int \<Rightarrow> error + real list list option" where
  "get_particle_x geometry_dim pc level =
     (let structs = get_particle_structs pc level in
      if geometry_dim = ''3d'' \<or> geometry_dim = ''2d'' then
        Inr (Some (map (map struct_x) structs))
      else if geometry_dim = ''rz'' then
        bind_err (get_particle_theta geometry_dim pc 0) (\<lambda>thetas.
          case thetas of
            None \<Rightarrow> Inl TypeError
          | Some thetas \<Rightarrow>
             bind_err
               (map_err (\<lambda>(struct, theta). np_mul (map struct_x struct) (map cos theta))
                  (zip structs thetas))
               (\<lambda>xs. Inr (Some xs)))
      else if geometry_dim = ''1d'' then
        Inl (Exception ''get_particle_x: There is no x coordinate with 1D Cartesian'')
      else Inr None)"

definition get_particle_y ::
  "string \<Rightarrow> particle_container \<Rightarrow> int \<Rightarrow> error + real list list option" where
  "get_particle_y geometry_dim pc level =
     (let structs = get_particle_structs pc level in
      if geometry_dim = ''3d'' then
        Inr (Some (map (map struct_y) structs))
      else if geometry_dim = ''rz'' then
        bind_err (get_particle_theta geometry_dim pc 0) (\<lambda>thetas.
          case thetas of
            None \<Rightarrow> Inl TypeError
          | Some thetas \<Rightarrow>
             bind_err
               (map_err (\<lambda>(struct, theta). np_mul (map struct_x struct) (map sin theta))
                  (zip structs thetas))
               (\<lambda>ys. Inr (Some ys)))
      else if geometry_dim = ''1d'' \<or> geometry_dim = ''2d'' then
        Inl (Exception ''get_particle_y: There is no y coordinate with 1D or 2D Cartesian'')
      else Inr None)"

definition get_particle_r ::
  "string \<Rightarrow> particle_container \<Rightarrow> int \<Rightarrow> error + real list list option" where
  "get_particle_r geometry_dim pc level =
     (let structs = get_particle_structs pc level in
      if geometry_dim = ''rz'' then
        Inr (Some (map (map struct_x) structs))
      else if geometry_dim = ''3d'' then
        Inr (Some (map (\<lambda>struct. map (\<lambda>p. sqrt ((struct_x p)\<^sup>2 + (struct_y p)\<^sup>2)) struct) structs))
      else if geometry_dim = ''2d'' \<or> geometry_dim = ''1d'' then
        Inl (Exception ''get_particle_r: There is no r coordinate with 1D or 2D Cartesian'')
      else Inr None)"

definition get_particle_z ::
  "string \<Rightarrow> particle_container \<Rightarrow> int \<Rightarrow> error + real list list option" where
  "get_particle_z geometry_dim pc level =
     (let structs = get_particle_structs pc level in
      if geometry_dim = ''3d'' then
        Inr (Some (map (map struct_z) structs))
      else if geometry_dim = ''rz'' \<or> geometry_dim = ''2d'' then
        Inr (Some (map (map struct_y) structs))
      else if geometry_dim = ''1d'' then
        Inr (Some (map (map struct_x) structs))
      else Inr None)"

section \<open>The particle boundary buffer\<close>

text \<open>
  The container of the particles one species lost at one boundary: the number of
  integer components, the finest level, and the tiles its iterator yields at a level.
  The buffer of the engine holds one for each species and boundary number that it
  records.
\<close>

record boundary_container =
  num_int_comps :: int
  finest_level :: nat
  buffer_tiles :: "int \<Rightarrow> tile list"

record particle_buffer =
  containers :: "string \<times> int \<Rightarrow> boundary_container option"

definition get_particle_container ::
  "particle_buffer \<Rightarrow> string \<Rightarrow> int \<Rightarrow> error + boundary_container" where
  "get_particle_container pb species_name boundary =
     (case containers pb (species_name, boundary) of
        None \<Rightarrow> Inl (EngineError (''get_particle_container: '' @ species_name))
      | Some c \<Rightarrow> Inr c)"

definition get_particle_container_from_name ::
  "(string \<Rightarrow> particle_container option) \<Rightarrow> string \<Rightarrow> error + particle_container" where
  "get_particle_container_from_name mypc name =
     (case mypc name of
        None \<Rightarrow> Inl (EngineError (''get_particle_container_from_name: '' @ name))
      | Some pc \<Rightarrow> Inr pc)"

text \<open>
  Modelled from the spec: the engine's \<^verbatim>\<open>clear_particles\<close> and
  \<^verbatim>\<open>get_num_particles_in_container\<close> are not part of the Python module. The
  specification describes the boundary buffer as storage for the particles that
  left the domain, keyed by species and boundary index, with a count query and a
  clear operation: clearing removes the stored particles of every container, and
  the count is the number of particles stored for the key (none where the buffer
  holds no container), on this process whatever \<open>local\<close> is.
\<close>

definition clear_particles :: "particle_buffer \<Rightarrow> particle_buffer" where
  "clear_particles pb =
     pb\<lparr>containers :=
          (\<lambda>key. map_option (\<lambda>c. c\<lparr>buffer_tiles := (\<lambda>level. [])\<rparr>) (containers pb key))\<rparr>"

definition count_particles :: "boundary_container \<Rightarrow> nat" where
  "count_particles c =
     sum_list (map (\<lambda>lev. sum_list (map (\<lambda>pti. length (aos pti)) (buffer_tiles c (int lev))))
                 [0 ..< Suc (finest_level c)])"

definition get_num_particles_in_container ::
  "particle_buffer \<Rightarrow> string \<Rightarrow> int \<Rightarrow> bool \<Rightarrow> nat" where
  "get_num_particles_in_container pb species_name boundary local =
     (case containers pb (species_name, boundary) of
        None \<Rightarrow> 0
      | Some c \<Rightarrow> count_particles c)"

definition get_particle_boundary_buffer_size ::
  "string \<Rightarrow> particle_buffer \<Rightarrow> string \<Rightarrow> string \<Rightarrow> bool \<Rightarrow> error + nat" where
  "get_particle_boundary_buffer_size geometry_dim pb species_name boundary local =
     bind_err (get_boundary_number geometry_dim boundary) (\<lambda>boundary_num.
     Inr (get_num_particles_in_container pb species_name boundary_num local))"

definition clear_buffer :: "particle_buffer \<Rightarrow> particle_buffer" where
  "clear_buffer pb = clear_particles pb"

text \<open>The arrays \<^verbatim>\<open>get_particle_boundary_buffer\<close> returns hold integers or reals.\<close>

datatype ndarray = IntArray "int list" | RealArray "real list"

definition get_particle_boundary_buffer ::
  "string \<Rightarrow> particle_buffer \<Rightarrow> (string \<Rightarrow> particle_container option) \<Rightarrow>
   string \<Rightarrow> string \<Rightarrow> string \<Rightarrow> int \<Rightarrow> error + ndarray list" where
  "get_particle_boundary_buffer geometry_dim pb mypc species_name boundary comp_name level =
     bind_err (get_boundary_number geometry_dim boundary) (\<lambda>boundary_num.
     bind_err (get_particle_container pb species_name boundary_num) (\<lambda>part_container.
       if comp_name = ''step_scraped'' then
         (let comp_idx = num_int_comps part_container - 1 in
          map_err (\<lambda>pti. bind_err (GetIntData pti comp_idx) (\<lambda>a. Inr (IntArray a)))
            (buffer_tiles part_container level))
       else
         bind_err (get_particle_container_from_name mypc species_name)
           (\<lambda>sim_part_container_wrapper.
         bind_err (get_comp_index sim_part_container_wrapper comp_name) (\<lambda>comp_idx.
           map_err (\<lambda>pti. bind_err (GetRealData pti comp_idx) (\<lambda>a. Inr (RealArray a)))
             (buffer_tiles part_container level)))))"

text \<open>
  Name lookup. The module binds four global names itself, \<^verbatim>\<open>np\<close> and \<^verbatim>\<open>libwarpx\<close> by
  its imports and the two classes; Python adds the attributes every imported module
  has. A global name that is neither bound by the module nor a name of the module
  \<^verbatim>\<open>builtins\<close> (listed here as of CPython 3.11) raises \<open>NameError\<close>. An instance of
  \<^verbatim>\<open>ParticleBoundaryBufferWrapper\<close> has the attribute \<^verbatim>\<open>particle_buffer\<close>, set by
  \<^verbatim>\<open>__init__\<close>, the methods of its class, and the attributes every object has.
\<close>

definition module_globals :: "string list" where
  "module_globals =
     [''np'', ''libwarpx'', ''ParticleContainerWrapper'', ''ParticleBoundaryBufferWrapper'',
      ''__name__'', ''__doc__'', ''__package__'', ''__loader__'', ''__spec__'', ''__file__'',
      ''__cached__'', ''__builtins__'']"

definition builtins :: "string list" where
  "builtins =
     [''ArithmeticError'', ''AssertionError'', ''AttributeError'', ''BaseException'',
      ''BaseExceptionGroup'', ''BlockingIOError'', ''BrokenPipeError'', ''BufferError'',
      ''BytesWarning'', ''ChildProcessError'', ''ConnectionAbortedError'',
      ''ConnectionError'', ''ConnectionRefusedError'', ''ConnectionResetError'',
      ''DeprecationWarning'', ''EOFError'', ''Ellipsis'', ''EncodingWarning'',
      ''EnvironmentError'', ''Exception'', ''ExceptionGroup'', ''False'',
      ''FileExistsError'', ''FileNotFoundError'', ''FloatingPointError'',
      ''FutureWarning'', ''GeneratorExit'', ''IOError'', ''ImportError'',
      ''ImportWarning'', ''IndentationError'', ''IndexError'', ''InterruptedError'',
      ''IsADirectoryError'', ''KeyError'', ''KeyboardInterrupt'', ''LookupError'',
      ''MemoryError'', ''ModuleNotFoundError'', ''NameError'', ''None'',
      ''NotADirectoryError'', ''NotImplemented'', ''NotImplementedError'', ''OSError'',
      ''OverflowError'', ''PendingDeprecationWarning'', ''PermissionError'',
      ''ProcessLookupError'', ''RecursionError'', ''ReferenceError'',
      ''ResourceWarning'', ''RuntimeError'', ''RuntimeWarning'', ''StopAsyncIteration'',
      ''StopIteration'', ''SyntaxError'', ''SyntaxWarning'', ''SystemError'',
      ''SystemExit'', ''TabError'', ''TimeoutError'', ''True'', ''TypeError'',
      ''UnboundLocalError'', ''UnicodeDecodeError'', ''UnicodeEncodeError'',
      ''UnicodeError'', ''UnicodeTranslateError'', ''UnicodeWarning'', ''UserWarning'',
      ''ValueError'', ''Warning'', ''ZeroDivisionError'', ''__build_class__'',
      ''__debug__'', ''__doc__'', ''__import__'', ''__loader__'', ''__name__'',
      ''__package__'', ''__spec__'', ''abs'', ''aiter'', ''all'', ''anext'', ''any'',
      ''ascii'', ''bin'', ''bool'', ''breakpoint'', ''bytearray'', ''bytes'',
      ''callable'', ''chr'', ''classmethod'', ''compile'', ''complex'', ''copyright'',
      ''credits'', ''delattr'', ''dict'', ''dir'', ''divmod'', ''enumerate'', ''eval'',
      ''exec'', ''exit'', ''filter'', ''float'', ''format'', ''frozenset'', ''getattr'',
      ''globals'', ''hasattr'', ''hash'', ''help'', ''hex'', ''id'', ''input'', ''int'',
      ''isinstance'', ''issubclass'', ''iter'', ''len'', ''license'', ''list'',
      ''locals'', ''map'', ''max'', ''memoryview'', ''min'', ''next'', ''object'',
      ''oct'', ''open'', ''ord'', ''pow'', ''print'', ''property'', ''quit'', ''range'',
      ''repr'', ''reversed'', ''round'', ''set'', ''setattr'', ''slice'', ''sorted'',
      ''staticmethod'', ''str'', ''sum'', ''super'', ''tuple'', ''type'', ''vars'',
      ''zip'']"

definition global_name :: "string \<Rightarrow> error + unit" where
  "global_name name =
     (if name \<in> set module_globals \<or> name \<in> set builtins then Inr ()
      else Inl (NameError name))"

definition buffer_wrapper_attrs :: "string list" where
  "buffer_wrapper_attrs =
     [''particle_buffer'', ''get_particle_boundary_buffer_size'',
      ''get_particle_boundary_buffer_structs'', ''get_particle_boundary_buffer'',
      ''clear_buffer'', ''_get_boundary_number'',
      ''__class__'', ''__delattr__'', ''__dict__'', ''__dir__'', ''__doc__'', ''__eq__'',
      ''__format__'', ''__ge__'', ''__getattribute__'', ''__getstate__'', ''__gt__'',
      ''__hash__'', ''__init__'', ''__init_subclass__'', ''__le__'', ''__lt__'',
      ''__module__'', ''__ne__'', ''__new__'', ''__reduce__'', ''__reduce_ex__'',
      ''__repr__'', ''__setattr__'', ''__sizeof__'', ''__str__'', ''__subclasshook__'',
      ''__weakref__'']"

definition self_attr :: "string \<Rightarrow> error + unit" where
  "self_attr name =
     (if name \<in> set buffer_wrapper_attrs then Inr () else Inl (AttributeError name))"

text \<open>
  \<^verbatim>\<open>get_particle_boundary_buffer_structs\<close>, by the names its statements look up, in
  the order Python evaluates them: \<^verbatim>\<open>_LP_c_int()\<close>, \<^verbatim>\<open>ctypes.c_int(0)\<close>, the callee
  \<^verbatim>\<open>self.libwarpx_so.warpx_getParticleBoundaryBufferStructs\<close> and its arguments, the
  loop over the tiles, and \<^verbatim>\<open>_libc.free\<close>. \<open>tile_loop\<close> stands for the list the loop
  would build from the engine's answer; for each tile that holds particles it
  reads \<^verbatim>\<open>self._array1d_from_pointer\<close> and \<^verbatim>\<open>self._p_dtype\<close>.
\<close>

definition get_particle_boundary_buffer_structs ::
  "string \<Rightarrow> string \<Rightarrow> string \<Rightarrow> int \<Rightarrow> error + pstruct list list \<Rightarrow>
   error + pstruct list list" where
  "get_particle_boundary_buffer_structs geometry_dim species_name boundary level tile_loop =
     bind_err (global_name ''_LP_c_int'') (\<lambda>_.
     bind_err (global_name ''ctypes'') (\<lambda>_.
     bind_err (self_attr ''libwarpx_so'') (\<lambda>_.
     bind_err (get_boundary_number geometry_dim boundary) (\<lambda>boundary_num.
     bind_err tile_loop (\<lambda>particle_data.
     bind_err (global_name ''_libc'') (\<lambda>_.
     Inr particle_data))))))"

text \<open>
  The tokens the specification calls well formed for a geometry: an axis of the
  geometry, \<^verbatim>\<open>_\<close>, and \<^verbatim>\<open>lo\<close> or \<^verbatim>\<open>hi\<close>.
\<close>

definition well_formed_token :: "string \<Rightarrow> string \<Rightarrow> bool" where
  "well_formed_token g b =
     (b \<in> set (concat (map (\<lambda>(axis, k). [axis @ ''_lo'', axis @ ''_hi'']) (axes g))))"

section \<open>The specification's reading of a call\<close>

text \<open>
  The fields a call supplies, with their names, in the order the assertions take
  them: the positional fields that are not \<^verbatim>\<open>None\<close>, then the keyword arguments.
\<close>

definition named_fields ::
  "npvalue option \<Rightarrow> npvalue option \<Rightarrow> npvalue option \<Rightarrow> npvalue option \<Rightarrow>
   npvalue option \<Rightarrow> npvalue option \<Rightarrow> npvalue option \<Rightarrow> (string \<times> npvalue) list \<Rightarrow>
   (string \<times> npvalue option) list" where
  "named_fields x y z ux uy uz w kwargs =
     filter (\<lambda>(key, f). f \<noteq> None)
       [(''x'', x), (''y'', y), (''z'', z), (''ux'', ux), (''uy'', uy), (''uz'', uz), (''w'', w)]
     @ map (\<lambda>(key, val). (key, Some val)) kwargs"

text \<open>The sizes of the supplied positional fields.\<close>

definition supplied_sizes ::
  "npvalue option \<Rightarrow> npvalue option \<Rightarrow> npvalue option \<Rightarrow> npvalue option \<Rightarrow>
   npvalue option \<Rightarrow> npvalue option \<Rightarrow> npvalue option \<Rightarrow> nat list" where
  "supplied_sizes x y z ux uy uz w =
     map (\<lambda>(key, f). np_size f) (named_fields x y z ux uy uz w [])"

text \<open>
  The batch size in the specification's words: the maximum size over all supplied
  fields, the keyword arguments included, and 0 when there is none.
\<close>

definition spec_batch_size ::
  "npvalue option \<Rightarrow> npvalue option \<Rightarrow> npvalue option \<Rightarrow> npvalue option \<Rightarrow>
   npvalue option \<Rightarrow> npvalue option \<Rightarrow> npvalue option \<Rightarrow> (string \<times> npvalue) list \<Rightarrow> nat" where
  "spec_batch_size x y z ux uy uz w kwargs =
     Max (set (0 # map (\<lambda>(key, f). np_size f) (named_fields x y z ux uy uz w kwargs)))"

text \<open>The supplied fields whose size is neither 1 nor \<open>N\<close>.\<close>

definition offending :: "nat \<Rightarrow> (string \<times> npvalue option) list \<Rightarrow> (string \<times> npvalue option) list" where
  "offending N nfs = filter (\<lambda>(key, f). np_size f \<noteq> 1 \<and> np_size f \<noteq> N) nfs"

text \<open>
  Containers for the examples: a species with the components \<open>w, ux, uy, uz\<close> and one
  more attribute \<open>orig_z\<close>, holding one tile of one particle, and the same species
  under RZ, where \<open>theta\<close> is the fifth built-in component.
\<close>

definition example_tile :: tile where
  "example_tile =
     \<lparr>aos = [\<lparr>struct_x = 1, struct_y = 2, struct_z = 3, struct_cpuid = 7\<rparr>],
      real_data = [[10], [0], [0], [0], [3]],
      int_data = [[4], [12]]\<rparr>"

definition example_container :: particle_container where
  "example_container =
     \<lparr>num_real_comps = 5,
      comp_index = map_of [(''w'', 0), (''ux'', 1), (''uy'', 2), (''uz'', 3), (''orig_z'', 4)],
      tiles = (\<lambda>level. if level = 0 then [example_tile] else []),
      added = []\<rparr>"


text \<open>A boundary buffer that holds the example tile for species \<open>electrons\<close> at \<open>z_hi\<close> in 3d.\<close>

definition example_buffer :: particle_buffer where
  "example_buffer =
     \<lparr>containers =
        (\<lambda>key. if key = (''electrons'', 5)
               then Some \<lparr>num_int_comps = 2, finest_level = 0,
                          buffer_tiles = (\<lambda>level. if level = 0 then [example_tile] else [])\<rparr>
               else None)\<rparr>"

text \<open>The simulation containers by species name, for the examples.\<close>

definition example_mypc :: "string \<Rightarrow> particle_container option" where
  "example_mypc = (\<lambda>name. if name = ''electrons'' then Some example_container else None)"

section \<open>Properties of the boundary numbers\<close>

lemma split_not_Nil: "split sep s \<noteq> []"
  by (induction s) (auto split: list.splits)

text \<open>
  C2. With a known geometry, the token of an axis of the geometry and a side has the
  number \<open>2 * axis + side\<close>, where \<open>lo\<close> is 0 and \<open>hi\<close> is 1 and the axes are
  \<open>x = 0, y = 1, z = 2\<close> in 3d, \<open>x = 0, z = 1\<close> in 2d and rz, \<open>z = 0\<close> in 1d; the token
  \<open>eb\<close> has twice the number of axes. So \<open>x_lo\<close> is 0, \<open>z_hi\<close> is 5 and \<open>eb\<close> is 6 in 3d,
  and \<open>eb\<close> is 2 in 1d.
\<close>

theorem get_boundary_number_codes:
  "(known_geometry g \<and> map_of (axes g) axis = Some k \<and> side_code side = Some s
      \<longrightarrow> get_boundary_number g (axis @ ''_'' @ side) = Inr (2 * k + s))
   \<and> (known_geometry g \<longrightarrow> get_boundary_number g ''eb'' = Inr (2 * int (length (axes g))))
   \<and> axes ''3d'' = [(''x'', 0), (''y'', 1), (''z'', 2)]
   \<and> axes ''2d'' = [(''x'', 0), (''z'', 1)]
   \<and> axes ''rz'' = [(''x'', 0), (''z'', 1)]
   \<and> axes ''1d'' = [(''z'', 0)]
   \<and> side_code ''lo'' = Some 0
   \<and> side_code ''hi'' = Some 1
   \<and> get_boundary_number ''3d'' ''x_lo'' = Inr 0
   \<and> get_boundary_number ''3d'' ''z_hi'' = Inr 5
   \<and> get_boundary_number ''3d'' ''eb'' = Inr 6
   \<and> get_boundary_number ''1d'' ''eb'' = Inr 2"
  by (auto simp: known_geometry_def axes_def dimensions_def get_boundary_number_def
        side_code_def split: if_splits)

theorem get_boundary_number_codes_witness:
  "known_geometry ''rz'' \<and> map_of (axes ''rz'') ''z'' = Some 1 \<and> side_code ''hi'' = Some 1
   \<and> get_boundary_number ''rz'' ''z_hi'' = Inr 3
   \<and> get_boundary_number ''rz'' ''eb'' = Inr 4"
  using get_boundary_number_codes [of "''rz''" "''z''" 1 "''hi''" 1]
  by (simp add: known_geometry_def axes_def dimensions_def side_code_def)

text \<open>
  C5, as stated, fails: in 3d the token \<open>x_lo_junk\<close> is not \<open>eb\<close> and not an axis with
  a side, yet the method returns 0, the number of \<open>x_lo\<close>.
\<close>

theorem get_boundary_number_accepts_trailing_part:
  "known_geometry ''3d'' \<and> ''x_lo_junk'' \<noteq> ''eb'' \<and> \<not> well_formed_token ''3d'' ''x_lo_junk''
   \<and> get_boundary_number ''3d'' ''x_lo_junk'' = Inr 0"
  by (simp add: known_geometry_def well_formed_token_def axes_def dimensions_def
        get_boundary_number_def)

text \<open>
  C5, amended. With an unknown geometry the method fails with the \<open>RuntimeError\<close>
  of the geometry, whatever the token. With a known geometry and a token other than
  \<open>eb\<close>, only the first two parts of the token between \<^verbatim>\<open>_\<close> are read: a first part
  that is no axis of the geometry is a \<open>KeyError\<close>, a token of one part an
  \<open>IndexError\<close>, a second part that is neither \<open>lo\<close> nor \<open>hi\<close> the \<open>RuntimeError\<close> of
  the boundary; any other token is answered as the well-formed token of its first
  two parts is.
\<close>

theorem get_boundary_number_failures:
  "(\<not> known_geometry g \<longrightarrow>
      get_boundary_number g b = Inl (RuntimeError (''Unknown simulation geometry: '' @ g)))
   \<and> (known_geometry g \<and> b \<noteq> ''eb'' \<longrightarrow>
        (let parts = split CHR ''_'' b in
         if map_of (axes g) (hd parts) = None then
           get_boundary_number g b = Inl (KeyError (hd parts))
         else if length parts < 2 then
           get_boundary_number g b = Inl IndexError
         else if side_code (parts ! 1) = None then
           get_boundary_number g b = Inl (RuntimeError (''Unknown boundary specified: '' @ b))
         else
           well_formed_token g (hd parts @ ''_'' @ parts ! 1)
           \<and> get_boundary_number g b = get_boundary_number g (hd parts @ ''_'' @ parts ! 1)))"
proof -
  obtain p0 rest where sp: "split CHR ''_'' b = p0 # rest"
    using split_not_Nil by (cases "split CHR ''_'' b") auto
  show ?thesis
    unfolding known_geometry_def axes_def dimensions_def get_boundary_number_def
      side_code_def well_formed_token_def Let_def sp
    by (cases rest) (auto split: option.splits)
qed

theorem get_boundary_number_failures_witness:
  "\<not> known_geometry ''4d''
   \<and> get_boundary_number ''4d'' ''eb'' = Inl (RuntimeError ''Unknown simulation geometry: 4d'')
   \<and> known_geometry ''2d'' \<and> ''y_lo'' \<noteq> ''eb''
   \<and> get_boundary_number ''2d'' ''y_lo'' = Inl (KeyError ''y'')
   \<and> get_boundary_number ''2d'' ''x'' = Inl IndexError
   \<and> get_boundary_number ''2d'' ''x_mid''
       = Inl (RuntimeError ''Unknown boundary specified: x_mid'')
   \<and> get_boundary_number ''2d'' ''z_hi_0'' = get_boundary_number ''2d'' ''z_hi''"
  using get_boundary_number_failures [of "''4d''" "''eb''"]
    get_boundary_number_failures [of "''2d''" "''y_lo''"]
    get_boundary_number_failures [of "''2d''" "''x''"]
    get_boundary_number_failures [of "''2d''" "''x_mid''"]
    get_boundary_number_failures [of "''2d''" "''z_hi_0''"]
  by (simp add: known_geometry_def axes_def dimensions_def side_code_def)

section \<open>Properties of the coordinate queries\<close>

text \<open>
  C6. A coordinate query that the geometry does not have fails with the plain
  \<open>Exception\<close> of the method (the specification's \<open>UnsupportedOperation\<close>):
  \<open>get_particle_x\<close> in 1d, and \<open>get_particle_y\<close>, \<open>get_particle_r\<close> and
  \<open>get_particle_theta\<close> in 1d and in 2d.
\<close>

theorem coordinate_query_unsupported:
  "(geometry_dim = ''1d'' \<longrightarrow>
      get_particle_x geometry_dim pc level
        = Inl (Exception ''get_particle_x: There is no x coordinate with 1D Cartesian''))
   \<and> (geometry_dim = ''1d'' \<or> geometry_dim = ''2d'' \<longrightarrow>
      get_particle_y geometry_dim pc level
        = Inl (Exception ''get_particle_y: There is no y coordinate with 1D or 2D Cartesian'')
      \<and> get_particle_r geometry_dim pc level
        = Inl (Exception ''get_particle_r: There is no r coordinate with 1D or 2D Cartesian'')
      \<and> get_particle_theta geometry_dim pc level
        = Inl (Exception
            ''get_particle_theta: There is no theta coordinate with 1D or 2D Cartesian''))"
  by (auto simp: get_particle_x_def get_particle_y_def get_particle_r_def
        get_particle_theta_def Let_def)

theorem coordinate_query_unsupported_witness:
  "get_particle_x ''1d'' example_container 0
     = Inl (Exception ''get_particle_x: There is no x coordinate with 1D Cartesian'')
   \<and> get_particle_y ''1d'' example_container 0
     = Inl (Exception ''get_particle_y: There is no y coordinate with 1D or 2D Cartesian'')
   \<and> get_particle_y ''2d'' example_container 0
     = Inl (Exception ''get_particle_y: There is no y coordinate with 1D or 2D Cartesian'')
   \<and> get_particle_r ''2d'' example_container 0
     = Inl (Exception ''get_particle_r: There is no r coordinate with 1D or 2D Cartesian'')
   \<and> get_particle_theta ''1d'' example_container 0
     = Inl (Exception ''get_particle_theta: There is no theta coordinate with 1D or 2D Cartesian'')"
  using coordinate_query_unsupported [of "''1d''" example_container 0]
    coordinate_query_unsupported [of "''2d''" example_container 0]
  by simp

text \<open>
  C9. With each of the four geometries \<open>get_particle_z\<close> returns a list of arrays and
  raises nothing: for each tile of the container at the level, the field \<open>z\<close> of its
  structs in 3d, the field \<open>y\<close> in rz and in 2d, the field \<open>x\<close> in 1d; and
  \<open>get_particle_structs\<close> is the array of structs of each of these tiles.
\<close>

theorem get_particle_z_returns:
  "get_particle_z ''3d'' pc level = Inr (Some (map (\<lambda>pti. map struct_z (aos pti)) (tiles pc level)))
   \<and> get_particle_z ''rz'' pc level = Inr (Some (map (\<lambda>pti. map struct_y (aos pti)) (tiles pc level)))
   \<and> get_particle_z ''2d'' pc level = Inr (Some (map (\<lambda>pti. map struct_y (aos pti)) (tiles pc level)))
   \<and> get_particle_z ''1d'' pc level = Inr (Some (map (\<lambda>pti. map struct_x (aos pti)) (tiles pc level)))
   \<and> get_particle_structs pc level = map aos (tiles pc level)"
  by (simp add: get_particle_z_def get_particle_structs_def Let_def comp_def)

theorem get_particle_z_returns_witness:
  "tiles example_container 0 = [example_tile]
   \<and> aos example_tile = [\<lparr>struct_x = 1, struct_y = 2, struct_z = 3, struct_cpuid = 7\<rparr>]
   \<and> get_particle_z ''3d'' example_container 0 = Inr (Some [[3]])
   \<and> get_particle_z ''rz'' example_container 0 = Inr (Some [[2]])
   \<and> get_particle_z ''2d'' example_container 0 = Inr (Some [[2]])
   \<and> get_particle_z ''1d'' example_container 0 = Inr (Some [[1]])"
  using get_particle_z_returns [of example_container 0]
  by (simp add: example_container_def example_tile_def)

section \<open>Properties of the boundary buffer\<close>

text \<open>
  C7. After \<open>clear_buffer\<close>, \<open>get_particle_boundary_buffer_size\<close> returns 0 for every
  species and every boundary token the method accepts, among them \<open>eb\<close> and the
  well-formed tokens of a known geometry.
\<close>

theorem clear_buffer_then_size:
  "(get_boundary_number geometry_dim boundary = Inr n \<longrightarrow>
      get_particle_boundary_buffer_size geometry_dim (clear_buffer pb) species_name boundary local
        = Inr 0)
   \<and> (known_geometry geometry_dim \<and> (boundary = ''eb'' \<or> well_formed_token geometry_dim boundary)
        \<longrightarrow> get_particle_boundary_buffer_size geometry_dim (clear_buffer pb) species_name
              boundary local = Inr 0)"
proof -
  have size0: "get_particle_boundary_buffer_size geometry_dim (clear_buffer pb) species_name
      boundary local = Inr 0" if "get_boundary_number geometry_dim boundary = Inr m" for m
    using that
    by (simp add: get_particle_boundary_buffer_size_def clear_buffer_def clear_particles_def
          bind_err_def get_num_particles_in_container_def count_particles_def
          split: option.splits)
  have "\<exists>m. get_boundary_number geometry_dim boundary = Inr m"
    if "known_geometry geometry_dim" "boundary = ''eb'' \<or> well_formed_token geometry_dim boundary"
    using that
    by (auto simp: known_geometry_def well_formed_token_def axes_def dimensions_def
          get_boundary_number_def)
  with size0 show ?thesis by blast
qed

theorem clear_buffer_then_size_witness:
  "get_boundary_number ''3d'' ''z_hi'' = Inr 5
   \<and> known_geometry ''3d'' \<and> well_formed_token ''3d'' ''z_hi''
   \<and> get_particle_boundary_buffer_size ''3d'' example_buffer ''electrons'' ''z_hi'' False = Inr 1
   \<and> get_particle_boundary_buffer_size ''3d'' (clear_buffer example_buffer) ''electrons''
        ''z_hi'' False = Inr 0"
  using clear_buffer_then_size [of "''3d''" "''z_hi''" 5 example_buffer "''electrons''" False]
  by (simp add: known_geometry_def well_formed_token_def axes_def dimensions_def
        get_boundary_number_def get_particle_boundary_buffer_size_def bind_err_def
        get_num_particles_in_container_def count_particles_def example_buffer_def
        example_tile_def)

text \<open>
  C10. \<open>get_particle_boundary_buffer_structs\<close> raises for every input, before any
  data is read: its first statement calls \<^verbatim>\<open>_LP_c_int\<close>, a name the module does not
  bind. Neither are \<^verbatim>\<open>ctypes\<close> and \<^verbatim>\<open>_libc\<close> bound, and the wrapper has no attribute
  \<^verbatim>\<open>libwarpx_so\<close> or \<^verbatim>\<open>_array1d_from_pointer\<close>.
\<close>

theorem get_particle_boundary_buffer_structs_raises:
  "get_particle_boundary_buffer_structs geometry_dim species_name boundary level tile_loop
     = Inl (NameError ''_LP_c_int'')
   \<and> global_name ''ctypes'' = Inl (NameError ''ctypes'')
   \<and> global_name ''_libc'' = Inl (NameError ''_libc'')
   \<and> self_attr ''libwarpx_so'' = Inl (AttributeError ''libwarpx_so'')
   \<and> self_attr ''_array1d_from_pointer'' = Inl (AttributeError ''_array1d_from_pointer'')"
  by (simp add: get_particle_boundary_buffer_structs_def bind_err_def global_name_def
        self_attr_def module_globals_def builtins_def buffer_wrapper_attrs_def)

theorem get_particle_boundary_buffer_structs_raises_witness:
  "get_particle_boundary_buffer_structs ''3d'' ''electrons'' ''z_hi'' 0
     (Inr [aos example_tile]) = Inl (NameError ''_LP_c_int'')"
  using get_particle_boundary_buffer_structs_raises
    [of "''3d''" "''electrons''" "''z_hi''" 0 "Inr [aos example_tile]"]
  by simp

section \<open>Properties of add_particles\<close>

subsection \<open>The checks and the attribute table, step by step\<close>

lemma fold_max_supplied:
  "fold max (map (\<lambda>(key, f). np_size f) (filter (\<lambda>(key, f). f \<noteq> None) nfs)) m
   = fold (\<lambda>(key, f) m. if f \<noteq> None then max m (np_size f) else m) nfs m"
  by (induction nfs arbitrary: m) (auto simp: max.commute)

lemma find_maxlen_Max:
  "find_maxlen x y z ux uy uz w = Max (set (0 # supplied_sizes x y z ux uy uz w))"
proof -
  have "Max (set (0 # supplied_sizes x y z ux uy uz w))
        = fold max (supplied_sizes x y z ux uy uz w) 0"
    by (simp only: Max.set_eq_fold)
  also have "\<dots> = fold (\<lambda>(key, f) m. if f \<noteq> None then max m (np_size f) else m)
      [(''x'', x), (''y'', y), (''z'', z), (''ux'', ux), (''uy'', uy), (''uz'', uz), (''w'', w)] 0"
    unfolding supplied_sizes_def named_fields_def
    by (simp only: list.map append_Nil2 fold_max_supplied)
  also have "\<dots> = find_maxlen x y z ux uy uz w"
    by (simp only: find_maxlen_def Let_def fold_simps comp_apply id_apply case_prod_conv)
  finally show ?thesis by simp
qed







lemma fold_err_append:
  "fold_err f (as @ bs) s = bind_err (fold_err f as s) (fold_err f bs)"
  by (induction as arbitrary: s) (auto simp: bind_err_def split: sum.splits)

lemma fold_err_supplied:
  "fold_err (\<lambda>(key, f) _. assert (np_size f = 1 \<or> np_size f = N) (mismatch_msg key))
     (filter (\<lambda>(key, f). f \<noteq> None) nfs) ()
   = fold_err (\<lambda>(key, f) _. assert (f = None \<or> np_size f = N \<or> np_size f = 1) (mismatch_msg key))
       nfs ()"
  by (induction nfs) (auto simp: assert_def)
lemma bind_err_assoc: "bind_err (bind_err m f) g = bind_err m (\<lambda>v. bind_err (f v) g)"
  by (cases m) (simp_all add: bind_err_def)

lemma bind_err_Inr: "bind_err (Inr v) g = g v"
  by (simp add: bind_err_def)

lemma fold_err_Cons_unit:
  "fold_err F (a # as) () = bind_err (F a ()) (\<lambda>_. fold_err F as ())"
  by (simp add: bind_err_def split: sum.splits)

lemma fold_err_kwargs:
  "fold_err (\<lambda>(key, f) _. assert (np_size f = 1 \<or> np_size f = N) (mismatch_msg key))
       (map (\<lambda>(key, val). (key, Some val)) kwargs) ()
   = fold_err (\<lambda>(key, val) _. assert (np_size (Some val) = 1 \<or> len val = Some N) (mismatch_msg key))
     kwargs ()"
proof (induction kwargs)
  case Nil
  then show ?case by simp
next
  case (Cons kv kwargs)
  obtain key val where kv: "kv = (key, val)" by (cases kv)
  have "(np_size (Some val) = 1 \<or> len val = Some N)
        = (np_size (Some val) = 1 \<or> np_size (Some val) = N)"
    by (cases val) auto
  with Cons show ?case
    by (simp only: kv list.map case_prod_conv fold_err_Cons_unit)
qed

lemma fold_err_offending:
  "fold_err (\<lambda>(key, f) _. assert (np_size f = 1 \<or> np_size f = N) (mismatch_msg key)) nfs ()
   = (case offending N nfs of
        [] \<Rightarrow> Inr ()
      | (key, f) # _ \<Rightarrow> Inl (AssertionError (mismatch_msg key)))"
  by (induction nfs) (auto simp: offending_def assert_def)

lemma check_lengths_named_fields:
  "check_lengths N x y z ux uy uz w kwargs
   = fold_err (\<lambda>(key, f) _. assert (np_size f = 1 \<or> np_size f = N) (mismatch_msg key))
       (named_fields x y z ux uy uz w kwargs) ()"
  unfolding named_fields_def fold_err_append fold_err_supplied
  by (simp only: check_lengths_def fold_err_Cons_unit fold_err.simps(1) case_prod_conv
        bind_err_assoc bind_err_Inr fold_err_kwargs)

lemma check_lengths_offending:
  "check_lengths N x y z ux uy uz w kwargs
   = (case offending N (named_fields x y z ux uy uz w kwargs) of
        [] \<Rightarrow> Inr ()
      | (key, f) # _ \<Rightarrow> Inl (AssertionError (mismatch_msg key)))"
  by (simp only: check_lengths_named_fields fold_err_offending)

lemma check_lengths_Inr:
  assumes "check_lengths N x y z ux uy uz w kwargs = Inr u"
    and "(key, f) \<in> set (named_fields x y z ux uy uz w kwargs)"
  shows "np_size f = 1 \<or> np_size f = N"
proof -
  from assms(1) have "offending N (named_fields x y z ux uy uz w kwargs) = []"
    by (auto simp: check_lengths_offending split: list.splits)
  with assms(2) show ?thesis
    by (auto simp: offending_def filter_empty_conv)
qed

lemma length_broadcast:
  "f = None \<or> np_size f = 1 \<or> np_size f = N \<Longrightarrow> length (broadcast N f) = N"
  by (cases f rule: np_size.cases) (auto simp: broadcast_def np_full_def)

lemma length_broadcast_kwarg:
  "np_size (Some val) = 1 \<or> np_size (Some val) = N \<Longrightarrow> length (broadcast_kwarg N val) = N"
  by (cases val) (auto simp: broadcast_kwarg_def np_full_def)

lemma named_fields_positional:
  assumes "f \<noteq> None"
    and "(key, f) \<in> set [(''x'', x), (''y'', y), (''z'', z), (''ux'', ux), (''uy'', uy),
                           (''uz'', uz), (''w'', w)]"
  shows "(key, f) \<in> set (named_fields x y z ux uy uz w kwargs)"
proof -
  from assms have "(key, f) \<in> {nf \<in> set [(''x'', x), (''y'', y), (''z'', z), (''ux'', ux),
      (''uy'', uy), (''uz'', uz), (''w'', w)]. case nf of (key, f) \<Rightarrow> f \<noteq> None}"
    by simp
  then show ?thesis
    unfolding named_fields_def set_append set_filter by (rule UnI1)
qed

lemma named_fields_kwarg:
  assumes "(key, val) \<in> set kwargs"
  shows "(key, Some val) \<in> set (named_fields x y z ux uy uz w kwargs)"
proof -
  from assms have "(key, Some val) \<in> set (map (\<lambda>(key, val). (key, Some val)) kwargs)"
    by force
  then show ?thesis
    unfolding named_fields_def set_append by (rule UnI2)
qed

lemma check_lengths_fields:
  assumes "check_lengths N x y z ux uy uz w kwargs = Inr u"
  shows "length (broadcast N x) = N" "length (broadcast N y) = N" "length (broadcast N z) = N"
    "length (broadcast N ux) = N" "length (broadcast N uy) = N" "length (broadcast N uz) = N"
    "length (broadcast N w) = N"
    "\<forall>(key, val) \<in> set kwargs. length (broadcast_kwarg N val) = N"
proof -
  have *: "length (broadcast N f) = N"
    if "(key, f) \<in> set [(''x'', x), (''y'', y), (''z'', z), (''ux'', ux), (''uy'', uy),
                           (''uz'', uz), (''w'', w)]" for key f
  proof (cases "f = None")
    case True
    then show ?thesis by (simp add: length_broadcast)
  next
    case False
    then have "(key, f) \<in> set (named_fields x y z ux uy uz w kwargs)"
      using that by (rule named_fields_positional)
    from check_lengths_Inr [OF assms this] show ?thesis
      by (intro length_broadcast) simp
  qed
  show "length (broadcast N x) = N" by (rule * [of "''x''"]) simp
  show "length (broadcast N y) = N" by (rule * [of "''y''"]) simp
  show "length (broadcast N z) = N" by (rule * [of "''z''"]) simp
  show "length (broadcast N ux) = N" by (rule * [of "''ux''"]) simp
  show "length (broadcast N uy) = N" by (rule * [of "''uy''"]) simp
  show "length (broadcast N uz) = N" by (rule * [of "''uz''"]) simp
  show "length (broadcast N w) = N" by (rule * [of "''w''"]) simp
  show "\<forall>(key, val) \<in> set kwargs. length (broadcast_kwarg N val) = N"
  proof clarify
    fix key val assume "(key, val) \<in> set kwargs"
    then have "(key, Some val) \<in> set (named_fields x y z ux uy uz w kwargs)"
      by (rule named_fields_kwarg)
    from check_lengths_Inr [OF assms this] show "length (broadcast_kwarg N val) = N"
      by (rule length_broadcast_kwarg)
  qed
qed


lemma add_particles_Inr:
  assumes "add_particles g pc x y z ux uy uz w u kwargs = (Inr (), pc')"
  obtains attr where
    "check_lengths (find_maxlen x y z ux uy uz w) x y z ux uy uz w kwargs = Inr ()"
    and "build_attr g pc (find_maxlen x y z ux uy uz w)
           (broadcast (find_maxlen x y z ux uy uz w) w)
           (map (\<lambda>(key, val). (key, broadcast_kwarg (find_maxlen x y z ux uy uz w) val)) kwargs)
         = Inr attr"
    and "pc' = add_n_particles pc
           \<lparr>b_lev = 0, b_n = length (broadcast (find_maxlen x y z ux uy uz w) x),
            b_x = broadcast (find_maxlen x y z ux uy uz w) x,
            b_y = broadcast (find_maxlen x y z ux uy uz w) y,
            b_z = broadcast (find_maxlen x y z ux uy uz w) z,
            b_ux = broadcast (find_maxlen x y z ux uy uz w) ux,
            b_uy = broadcast (find_maxlen x y z ux uy uz w) uy,
            b_uz = broadcast (find_maxlen x y z ux uy uz w) uz,
            b_nattr_real = num_real_comps pc - built_in_attrs g, b_attr_real = attr,
            b_nattr_int = 0, b_attr_int = [],
            b_uniqueparticles = u\<rparr>"
  using assms
  by (auto simp: add_particles_def Let_def split: sum.splits)

lemmas add_particles_eval =
  add_particles_def find_maxlen_def check_lengths_def bind_err_def assert_def mismatch_msg_def
  broadcast_def broadcast_kwarg_def np_full_def build_attr_def store_kwarg_def np_zeros_def
  set_column_def get_comp_index_def built_in_attrs_def add_n_particles_def Let_def
  numeral_2_eq_2

subsection \<open>The batch size and the broadcast\<close>

text \<open>
  C1, as stated, fails: the batch size is not the maximum over all supplied fields.
  With no positional field and the keyword argument \<open>orig_z\<close> of size 3 the
  specification's batch size is 3, the code's is 0, and the call fails on the
  length of \<open>orig_z\<close>.
\<close>

theorem add_particles_batch_size_ignores_kwargs:
  "spec_batch_size None None None None None None None [(''orig_z'', Array [1, 2, 3])] = 3
   \<and> find_maxlen None None None None None None None = 0
   \<and> add_particles ''3d'' example_container None None None None None None None True
        [(''orig_z'', Array [1, 2, 3])]
      = (Inl (AssertionError ''Length of orig_z doesn't match len of others''), example_container)"
  by (simp add: spec_batch_size_def named_fields_def find_maxlen_def add_particles_def
        check_lengths_def bind_err_def assert_def mismatch_msg_def)

text \<open>
  C1, amended. The batch size \<open>N\<close> is the maximum size over the supplied positional
  fields \<open>x, y, z, ux, uy, uz, w\<close>, and 0 when none is supplied; the keyword arguments
  do not enter it, and a call that goes through has each of them of size 1 or \<open>N\<close>.
  A field of size 1, scalar or array, is broadcast to \<open>N\<close> copies of its number, an
  omitted positional field to \<open>N\<close> zeros; the batch a successful call adds holds
  \<open>N\<close> particles and the broadcast positions and momenta, each of length \<open>N\<close>.
\<close>

theorem add_particles_batch_size:
  "find_maxlen x y z ux uy uz w = Max (set (0 # supplied_sizes x y z ux uy uz w))
   \<and> find_maxlen None None None None None None None = 0
   \<and> broadcast N None = replicate N 0
   \<and> broadcast N (Some (Scalar v)) = replicate N v
   \<and> broadcast N (Some (Array [v])) = replicate N v
   \<and> broadcast_kwarg N (Scalar v) = replicate N v
   \<and> broadcast_kwarg N (Array [v]) = replicate N v
   \<and> (add_particles geometry_dim pc x y z ux uy uz w unique_particles kwargs = (Inr (), pc') \<longrightarrow>
        (\<exists>b. added pc' = added pc @ [b]
           \<and> b_n b = find_maxlen x y z ux uy uz w
           \<and> [b_x b, b_y b, b_z b, b_ux b, b_uy b, b_uz b]
               = map (broadcast (find_maxlen x y z ux uy uz w)) [x, y, z, ux, uy, uz]
           \<and> (\<forall>xs \<in> set [b_x b, b_y b, b_z b, b_ux b, b_uy b, b_uz b].
                 length xs = find_maxlen x y z ux uy uz w)
           \<and> (\<forall>(key, val) \<in> set kwargs.
                 np_size (Some val) = 1 \<or> np_size (Some val) = find_maxlen x y z ux uy uz w)))"
proof (intro conjI impI)
  show "find_maxlen x y z ux uy uz w = Max (set (0 # supplied_sizes x y z ux uy uz w))"
    by (rule find_maxlen_Max)
  show "find_maxlen None None None None None None None = 0"
    by (simp add: find_maxlen_def)
  show "broadcast N None = replicate N 0" "broadcast N (Some (Scalar v)) = replicate N v"
    "broadcast N (Some (Array [v])) = replicate N v"
    by (simp_all add: broadcast_def np_full_def)
  show "broadcast_kwarg N (Scalar v) = replicate N v" "broadcast_kwarg N (Array [v]) = replicate N v"
    by (simp_all add: broadcast_kwarg_def np_full_def)
next
  let ?N = "find_maxlen x y z ux uy uz w"
  assume "add_particles geometry_dim pc x y z ux uy uz w unique_particles kwargs = (Inr (), pc')"
  then obtain attr where
    chk: "check_lengths ?N x y z ux uy uz w kwargs = Inr ()"
    and pc': "pc' = add_n_particles pc
           \<lparr>b_lev = 0, b_n = length (broadcast ?N x),
            b_x = broadcast ?N x, b_y = broadcast ?N y, b_z = broadcast ?N z,
            b_ux = broadcast ?N ux, b_uy = broadcast ?N uy, b_uz = broadcast ?N uz,
            b_nattr_real = num_real_comps pc - built_in_attrs geometry_dim, b_attr_real = attr,
            b_nattr_int = 0, b_attr_int = [],
            b_uniqueparticles = unique_particles\<rparr>"
    by (rule add_particles_Inr)
  note len = check_lengths_fields [OF chk]
  have kw: "\<forall>(key, val) \<in> set kwargs. np_size (Some val) = 1 \<or> np_size (Some val) = ?N"
    using check_lengths_Inr [OF chk named_fields_kwarg] by blast
  show "\<exists>b. added pc' = added pc @ [b]
           \<and> b_n b = ?N
           \<and> [b_x b, b_y b, b_z b, b_ux b, b_uy b, b_uz b]
               = map (broadcast ?N) [x, y, z, ux, uy, uz]
           \<and> (\<forall>xs \<in> set [b_x b, b_y b, b_z b, b_ux b, b_uy b, b_uz b]. length xs = ?N)
           \<and> (\<forall>(key, val) \<in> set kwargs. np_size (Some val) = 1 \<or> np_size (Some val) = ?N)"
    unfolding pc' add_n_particles_def using len(1-6) kw
    by (intro exI [of _ "\<lparr>b_lev = 0, b_n = length (broadcast ?N x),
            b_x = broadcast ?N x, b_y = broadcast ?N y, b_z = broadcast ?N z,
            b_ux = broadcast ?N ux, b_uy = broadcast ?N uy, b_uz = broadcast ?N uz,
            b_nattr_real = num_real_comps pc - built_in_attrs geometry_dim, b_attr_real = attr,
            b_nattr_int = 0, b_attr_int = [],
            b_uniqueparticles = unique_particles\<rparr>"]) simp
qed

theorem add_particles_batch_size_witness:
  "add_particles ''3d'' example_container (Some (Array [1, 2])) (Some (Scalar 5)) None None None
     None (Some (Scalar 2)) True [(''orig_z'', Scalar 9)]
   = (Inr (),
      example_container
        \<lparr>added :=
           [\<lparr>b_lev = 0, b_n = 2, b_x = [1, 2], b_y = [5, 5], b_z = [0, 0],
             b_ux = [0, 0], b_uy = [0, 0], b_uz = [0, 0],
             b_nattr_real = 2, b_attr_real = \<lparr>nrows = 2, cols = [[2, 2], [9, 9]]\<rparr>,
             b_nattr_int = 0, b_attr_int = [], b_uniqueparticles = True\<rparr>]\<rparr>)
   \<and> find_maxlen (Some (Array [1, 2])) (Some (Scalar 5)) None None None None (Some (Scalar 2)) = 2
   \<and> supplied_sizes (Some (Array [1, 2])) (Some (Scalar 5)) None None None None (Some (Scalar 2))
       = [2, 1, 1]"
  using add_particles_batch_size [of "Some (Array [1, 2])" "Some (Scalar 5)" None None None None "Some (Scalar 2)"
      2 5 "''3d''" example_container True "[(''orig_z'', Scalar 9)]"]
  by (simp add: add_particles_eval example_container_def supplied_sizes_def named_fields_def)

subsection \<open>Mismatched lengths\<close>

text \<open>
  C3, as stated, fails when \<open>N\<close> is the batch size of the specification, the maximum
  size over all supplied fields. With \<open>x\<close> an empty array and the keyword argument
  \<open>orig_z\<close> a scalar that \<open>N\<close> is 1 and \<open>x\<close>, of size 0, is neither of size 1 nor of
  size \<open>N\<close>; yet the code's batch size is 0, every assertion holds, and the call
  adds a batch of no particles.
\<close>

theorem add_particles_empty_field_goes_through:
  "spec_batch_size (Some (Array [])) None None None None None None [(''orig_z'', Scalar 9)] = 1
   \<and> (''x'', Some (Array []))
       \<in> set (named_fields (Some (Array [])) None None None None None None [(''orig_z'', Scalar 9)])
   \<and> np_size (Some (Array [])) = 0
   \<and> find_maxlen (Some (Array [])) None None None None None None = 0
   \<and> add_particles ''3d'' example_container (Some (Array [])) None None None None None None True
        [(''orig_z'', Scalar 9)]
      = (Inr (),
         example_container
           \<lparr>added :=
              [\<lparr>b_lev = 0, b_n = 0, b_x = [], b_y = [], b_z = [],
                b_ux = [], b_uy = [], b_uz = [],
                b_nattr_real = 2, b_attr_real = \<lparr>nrows = 0, cols = [[], []]\<rparr>,
                b_nattr_int = 0, b_attr_int = [], b_uniqueparticles = True\<rparr>]\<rparr>)"
  by (simp add: spec_batch_size_def named_fields_def add_particles_eval example_container_def)

text \<open>
  C3, amended. If a supplied field, positional or keyword, has a size that is
  neither 1 nor the batch size \<open>N\<close> the code computes, the maximum size over the
  supplied positional fields, the call fails with the \<open>AssertionError\<close> (the
  specification's \<open>ShapeMismatch\<close>) whose message names such a field, the first in
  the order \<open>x, y, z, ux, uy, uz, w\<close>, keyword arguments, and the container is left
  as it was: no batch is added. (The \<^verbatim>\<open>assert\<close> statements are taken as executed, as
  Python does unless it is run with \<^verbatim>\<open>-O\<close>.)
\<close>

theorem add_particles_shape_mismatch:
  assumes "(key0, f0) \<in> set (named_fields x y z ux uy uz w kwargs)"
    and "np_size f0 \<noteq> 1" and "np_size f0 \<noteq> find_maxlen x y z ux uy uz w"
  shows "\<exists>key f. (key, f) \<in> set (named_fields x y z ux uy uz w kwargs)
           \<and> np_size f \<noteq> 1 \<and> np_size f \<noteq> find_maxlen x y z ux uy uz w
           \<and> hd (offending (find_maxlen x y z ux uy uz w) (named_fields x y z ux uy uz w kwargs))
               = (key, f)
           \<and> find_maxlen x y z ux uy uz w = Max (set (0 # supplied_sizes x y z ux uy uz w))
           \<and> add_particles geometry_dim pc x y z ux uy uz w unique_particles kwargs
               = (Inl (AssertionError (mismatch_msg key)), pc)"
proof -
  let ?N = "find_maxlen x y z ux uy uz w"
  let ?off = "offending ?N (named_fields x y z ux uy uz w kwargs)"
  from assms have "(key0, f0) \<in> set ?off"
    by (simp add: offending_def)
  then obtain key f rest where off: "?off = (key, f) # rest"
    by (cases ?off) auto
  then have "(key, f) \<in> set ?off" by simp
  then have mem: "(key, f) \<in> set (named_fields x y z ux uy uz w kwargs)"
      "np_size f \<noteq> 1" "np_size f \<noteq> ?N"
    by (simp_all add: offending_def)
  have first: "hd ?off = (key, f)"
    by (simp add: off)
  have "check_lengths ?N x y z ux uy uz w kwargs = Inl (AssertionError (mismatch_msg key))"
    by (simp add: check_lengths_offending off)
  then have "add_particles geometry_dim pc x y z ux uy uz w unique_particles kwargs
               = (Inl (AssertionError (mismatch_msg key)), pc)"
    by (simp add: add_particles_def Let_def)
  with mem first find_maxlen_Max [of x y z ux uy uz w] show ?thesis by blast
qed

theorem add_particles_shape_mismatch_witness:
  "(''y'', Some (Array [1, 2, 3]))
     \<in> set (named_fields (Some (Array [1, 2, 3, 4, 5])) (Some (Array [1, 2, 3])) None None None None None [])
   \<and> find_maxlen (Some (Array [1, 2, 3, 4, 5])) (Some (Array [1, 2, 3])) None None None None None = 5
   \<and> add_particles ''3d'' example_container (Some (Array [1, 2, 3, 4, 5])) (Some (Array [1, 2, 3]))
        None None None None None True []
      = (Inl (AssertionError ''Length of y doesn't match len of others''), example_container)"
  using add_particles_shape_mismatch [of "''y''" "Some (Array [1, 2, 3])" "Some (Array [1, 2, 3, 4, 5])" "Some (Array [1, 2, 3])"
      None None None None None "[]" "''3d''" example_container True]
  by (simp add: named_fields_def find_maxlen_def add_particles_def check_lengths_def bind_err_def
        assert_def mismatch_msg_def)

subsection \<open>The attribute table\<close>



section \<open>Properties of get_particle_boundary_buffer\<close>

lemma map_err_all_Inr:
  "(\<And>a. a \<in> set as \<Longrightarrow> f a = Inr (g a)) \<Longrightarrow> map_err f as = Inr (map g as)"
  by (induction as) auto

text \<open>
  C8. For an accepted boundary token and a species the buffer holds: with the
  component name \<open>step_scraped\<close> the arrays returned are the integer component of
  index \<open>num_int_comps - 1\<close> of each tile, its last one when the tiles carry the
  container's integer components; with any other name the index is looked up by
  name in the simulation container of the species (a failure of the lookup is the
  result) and the real component of that index of each tile is returned.
\<close>

theorem get_particle_boundary_buffer_components:
  assumes token: "get_boundary_number geometry_dim boundary = Inr n"
    and buffer: "containers pb (species_name, n) = Some c"
  shows "(comp_name = ''step_scraped''
          \<and> (\<forall>pti \<in> set (buffer_tiles c level).
                int_data pti \<noteq> [] \<and> int (length (int_data pti)) = num_int_comps c)
          \<longrightarrow> get_particle_boundary_buffer geometry_dim pb mypc species_name boundary comp_name level
              = Inr (map (\<lambda>pti. IntArray (int_data pti ! nat (num_int_comps c - 1)))
                       (buffer_tiles c level))
            \<and> (\<forall>pti \<in> set (buffer_tiles c level).
                  int_data pti ! nat (num_int_comps c - 1) = last (int_data pti)))
       \<and> (comp_name \<noteq> ''step_scraped'' \<and> mypc species_name = Some sim
          \<and> comp_index sim comp_name = Some i
          \<and> (\<forall>pti \<in> set (buffer_tiles c level). 0 \<le> i \<and> i < int (length (real_data pti)))
          \<longrightarrow> get_particle_boundary_buffer geometry_dim pb mypc species_name boundary comp_name level
              = Inr (map (\<lambda>pti. RealArray (real_data pti ! nat i)) (buffer_tiles c level)))
       \<and> (comp_name \<noteq> ''step_scraped'' \<and> mypc species_name = Some sim
          \<and> comp_index sim comp_name = None
          \<longrightarrow> get_particle_boundary_buffer geometry_dim pb mypc species_name boundary comp_name level
              = Inl (EngineError (''get_comp_index: '' @ comp_name)))"
proof (intro conjI impI)
  assume a: "comp_name = ''step_scraped''
          \<and> (\<forall>pti \<in> set (buffer_tiles c level).
                int_data pti \<noteq> [] \<and> int (length (int_data pti)) = num_int_comps c)"
  then have "map_err (\<lambda>pti. bind_err (GetIntData pti (num_int_comps c - 1)) (\<lambda>a. Inr (IntArray a)))
               (buffer_tiles c level)
             = Inr (map (\<lambda>pti. IntArray (int_data pti ! nat (num_int_comps c - 1)))
                      (buffer_tiles c level))"
  proof (intro map_err_all_Inr)
    fix pti assume "pti \<in> set (buffer_tiles c level)"
    with a have "int_data pti \<noteq> []" "int (length (int_data pti)) = num_int_comps c"
      by auto
    then have "0 \<le> num_int_comps c - 1 \<and> num_int_comps c - 1 < int (length (int_data pti))"
      by (cases "int_data pti") auto
    then show "bind_err (GetIntData pti (num_int_comps c - 1)) (\<lambda>a. Inr (IntArray a))
        = Inr (IntArray (int_data pti ! nat (num_int_comps c - 1)))"
      by (simp add: GetIntData_def bind_err_def)
  qed
  with a token buffer
  show "get_particle_boundary_buffer geometry_dim pb mypc species_name boundary comp_name level
              = Inr (map (\<lambda>pti. IntArray (int_data pti ! nat (num_int_comps c - 1)))
                       (buffer_tiles c level))"
    by (simp add: get_particle_boundary_buffer_def get_particle_container_def bind_err_def)
  show "\<forall>pti \<in> set (buffer_tiles c level).
                  int_data pti ! nat (num_int_comps c - 1) = last (int_data pti)"
  proof
    fix pti assume "pti \<in> set (buffer_tiles c level)"
    with a have ne: "int_data pti \<noteq> []" and len: "int (length (int_data pti)) = num_int_comps c"
      by auto
    from len have "nat (num_int_comps c - 1) = length (int_data pti) - 1" by simp
    with ne show "int_data pti ! nat (num_int_comps c - 1) = last (int_data pti)"
      by (simp add: last_conv_nth)
  qed
next
  assume a: "comp_name \<noteq> ''step_scraped'' \<and> mypc species_name = Some sim
          \<and> comp_index sim comp_name = Some i
          \<and> (\<forall>pti \<in> set (buffer_tiles c level). 0 \<le> i \<and> i < int (length (real_data pti)))"
  then have "map_err (\<lambda>pti. bind_err (GetRealData pti i) (\<lambda>a. Inr (RealArray a)))
               (buffer_tiles c level)
             = Inr (map (\<lambda>pti. RealArray (real_data pti ! nat i)) (buffer_tiles c level))"
    by (intro map_err_all_Inr) (auto simp: GetRealData_def bind_err_def)
  with a token buffer
  show "get_particle_boundary_buffer geometry_dim pb mypc species_name boundary comp_name level
              = Inr (map (\<lambda>pti. RealArray (real_data pti ! nat i)) (buffer_tiles c level))"
    by (simp add: get_particle_boundary_buffer_def get_particle_container_def bind_err_def
          get_particle_container_from_name_def get_comp_index_def)
next
  assume "comp_name \<noteq> ''step_scraped'' \<and> mypc species_name = Some sim
          \<and> comp_index sim comp_name = None"
  with token buffer
  show "get_particle_boundary_buffer geometry_dim pb mypc species_name boundary comp_name level
              = Inl (EngineError (''get_comp_index: '' @ comp_name))"
    by (simp add: get_particle_boundary_buffer_def get_particle_container_def bind_err_def
          get_particle_container_from_name_def get_comp_index_def)
qed

theorem get_particle_boundary_buffer_components_witness:
  "get_boundary_number ''3d'' ''z_hi'' = Inr 5
   \<and> get_particle_boundary_buffer ''3d'' example_buffer example_mypc ''electrons'' ''z_hi''
        ''step_scraped'' 0 = Inr [IntArray [12]]
   \<and> get_particle_boundary_buffer ''3d'' example_buffer example_mypc ''electrons'' ''z_hi''
        ''orig_z'' 0 = Inr [RealArray [3]]
   \<and> get_particle_boundary_buffer ''3d'' example_buffer example_mypc ''electrons'' ''z_hi''
        ''charge'' 0 = Inl (EngineError ''get_comp_index: charge'')"
  using get_particle_boundary_buffer_components [of "''3d''" "''z_hi''" 5 example_buffer "''electrons''"
        "\<lparr>num_int_comps = 2, finest_level = 0,
          buffer_tiles = (\<lambda>level. if level = 0 then [example_tile] else [])\<rparr>"
        "''step_scraped''" 0 example_mypc example_container 4]
    get_particle_boundary_buffer_components [of "''3d''" "''z_hi''" 5 example_buffer "''electrons''"
        "\<lparr>num_int_comps = 2, finest_level = 0,
          buffer_tiles = (\<lambda>level. if level = 0 then [example_tile] else [])\<rparr>"
        "''orig_z''" 0 example_mypc example_container 4]
    get_particle_boundary_buffer_components [of "''3d''" "''z_hi''" 5 example_buffer "''electrons''"
        "\<lparr>num_int_comps = 2, finest_level = 0,
          buffer_tiles = (\<lambda>level. if level = 0 then [example_tile] else [])\<rparr>"
        "''charge''" 0 example_mypc example_container 4]
  by (simp add: get_boundary_number_def dimensions_def example_buffer_def example_mypc_def
        example_container_def example_tile_def)

end
